theory Spec2Isabelle
  imports Main
begin

section \<open>JavaScript values\<close>

text \<open>
  The handlers are TypeScript, but the request body, the thrown errors and the bodies of
  the payment provider's HTTP answers are all typed \<^verbatim>\<open>any\<close>. They are modelled by
  the JSON-shaped values below. Numbers are restricted to integers: the handlers only
  test numbers for truthiness and pass them on unchanged.
\<close>

datatype jsval =
    Undefined
  | Null
  | Bool bool
  | Num int
  | Str string
  | Obj "(string \<times> jsval) list"

text \<open>ToBoolean: what \<^verbatim>\<open>!x\<close>, \<^verbatim>\<open>x || y\<close> and \<^verbatim>\<open>if (x)\<close> test.\<close>

fun truthy :: "jsval \<Rightarrow> bool" where
  "truthy Undefined = False"
| "truthy Null = False"
| "truthy (Bool b) = b"
| "truthy (Num n) = (n \<noteq> 0)"
| "truthy (Str s) = (s \<noteq> [])"
| "truthy (Obj fs) = True"

text \<open>\<^verbatim>\<open>a || b\<close> (both operands here are free of effects).\<close>

definition js_or :: "jsval \<Rightarrow> jsval \<Rightarrow> jsval" where
  "js_or a b = (if truthy a then a else b)"

text \<open>
  Reading a property of a value that is neither \<^verbatim>\<open>undefined\<close> nor \<^verbatim>\<open>null\<close>. None of
  the property names the handlers read exists on a primitive, so a primitive answers
  \<^verbatim>\<open>undefined\<close>.
\<close>

fun member :: "jsval \<Rightarrow> string \<Rightarrow> jsval" where
  "member (Obj fs) k = (case map_of fs k of None \<Rightarrow> Undefined | Some v \<Rightarrow> v)"
| "member v k = Undefined"

text \<open>Optional chaining \<^verbatim>\<open>v?.k\<close>.\<close>

fun opt_member :: "jsval \<Rightarrow> string \<Rightarrow> jsval" where
  "opt_member Undefined k = Undefined"
| "opt_member Null k = Undefined"
| "opt_member v k = member v k"

text \<open>
  A thrown value. Every collaborator of the handlers rejects with an object (an
  \<^verbatim>\<open>Error\<close> instance, an HTTP client error carrying a \<^verbatim>\<open>response\<close>), and so does
  the language itself; a thrown value is therefore the property list of that object.
\<close>

type_synonym thrown = "(string \<times> jsval) list"

text \<open>\<^verbatim>\<open>new Error(msg)\<close>, and the \<^verbatim>\<open>TypeError\<close> the language raises.\<close>

definition Error :: "string \<Rightarrow> thrown" where
  "Error msg = [(''message'', Str msg)]"

definition TypeError :: "string \<Rightarrow> thrown" where
  "TypeError msg = [(''message'', Str msg)]"

text \<open>
  Plain property access \<^verbatim>\<open>v.k\<close>: a \<^verbatim>\<open>TypeError\<close> on \<^verbatim>\<open>undefined\<close> and \<^verbatim>\<open>null\<close>.
  The wording of the message is the engine's; nothing below depends on it beyond its
  being a non-empty string.
\<close>

fun get_member :: "jsval \<Rightarrow> string \<Rightarrow> thrown + jsval" where
  "get_member Undefined k =
     Inl (TypeError (''Cannot read properties of undefined (reading '' @ [CHR 0x27] @ k
                     @ [CHR 0x27] @ '')''))"
| "get_member Null k =
     Inl (TypeError (''Cannot read properties of null (reading '' @ [CHR 0x27] @ k
                     @ [CHR 0x27] @ '')''))"
| "get_member v k = Inr (member v k)"

text \<open>A chain of plain accesses \<^verbatim>\<open>v.k1.k2...\<close>, left to right.\<close>

fun get_path :: "jsval \<Rightarrow> string list \<Rightarrow> thrown + jsval" where
  "get_path v [] = Inr v"
| "get_path v (k # ks) = (case get_member v k of Inl e \<Rightarrow> Inl e | Inr w \<Rightarrow> get_path w ks)"

text \<open>An environment variable (\<^verbatim>\<open>string | undefined\<close>) as a value.\<close>

fun env_val :: "string option \<Rightarrow> jsval" where
  "env_val None = Undefined"
| "env_val (Some s) = Str s"

text \<open>An environment variable inside a template literal.\<close>

fun env_text :: "string option \<Rightarrow> string" where
  "env_text None = ''undefined''"
| "env_text (Some s) = s"

section \<open>The world outside the handlers\<close>

text \<open>
  The payment provider's typed client answers with \<^verbatim>\<open>Payment\<close> and
  \<^verbatim>\<open>Subscription\<close> objects; only the fields the handlers read are kept.
\<close>

record Payment =
  payment_status :: string
  payment_customerId :: "string option"

record Subscription =
  subscription_status :: string

record MollieClient =
  payments_get :: "string \<Rightarrow> thrown + Payment"
  customerSubscriptions_create :: "jsval \<Rightarrow> thrown + Subscription"

text \<open>
  Everything a handler reaches outside its own code, for one invocation: the process
  environment, the platform classes \<^verbatim>\<open>URLSearchParams\<close> and \<^verbatim>\<open>URL\<close>, the
  platform's clock, time zone and calendar, the two HTTP clients of the payment provider,
  the record store's client, and \<^verbatim>\<open>updateDataverseSubscription\<close>, which the webhook
  handlers import from a module outside the sources at hand.

  A date is its time value, in milliseconds since the epoch. \<open>Date_now\<close> is the reading
  of the clock at \<^verbatim>\<open>new Date()\<close>. \<open>LocalTZA t isUTC\<close> is the offset of local time
  from UTC, at the UTC time value \<open>t\<close> when \<open>isUTC\<close> holds and at the local time
  value \<open>t\<close> otherwise. \<open>month_first_day d\<close> is the day number of the first day of the
  month that day number \<open>d\<close> falls in. \<open>Date_toISOString\<close> prints a time value in UTC.

  Logging (\<^verbatim>\<open>context.log\<close>, \<^verbatim>\<open>context.error\<close>) is left out. It makes no call, and
  its template literals raise only for an object whose \<^verbatim>\<open>toString\<close> cannot be called
  (in the initial creation: an email, or a customer id from the provider, of that shape).
\<close>

record Env =
  process_env :: "string \<Rightarrow> string option"
  URLSearchParams_get :: "string \<Rightarrow> string \<Rightarrow> string option"
  URL_valid :: "string \<Rightarrow> bool"
  Date_now :: int
  LocalTZA :: "int \<Rightarrow> bool \<Rightarrow> int"
  month_first_day :: "int \<Rightarrow> int"
  Date_toISOString :: "int \<Rightarrow> string"
  createMollieClient :: "jsval \<Rightarrow> thrown + MollieClient"
  axios_post :: "jsval \<Rightarrow> string \<Rightarrow> jsval \<Rightarrow> thrown + jsval"
  dynamicsWebApi_create :: "jsval \<Rightarrow> jsval \<Rightarrow> thrown + jsval"
  updateDataverseSubscription :: "jsval \<Rightarrow> bool \<Rightarrow> thrown + unit"

text \<open>The request: what \<^verbatim>\<open>request.text()\<close> and \<^verbatim>\<open>request.json()\<close> answer.\<close>

record HttpRequest =
  request_method :: string
  headers :: "(string \<times> string) list"
  text_result :: "thrown + string"
  json_result :: "thrown + jsval"

record HttpResponseInit =
  status :: "jsval option"
  body :: "jsval option"
  jsonBody :: "jsval option"

text \<open>The calls that leave the process, in the order they are made.\<close>

datatype call =
    Call_payments_get string
  | Call_customerSubscriptions_create jsval
  | Call_updateDataverseSubscription jsval bool
  | Call_axios_post string jsval
  | Call_dynamicsWebApi_create jsval jsval

type_synonym 'a outcome = "(thrown + 'a) \<times> call list"

text \<open>
  Sequencing inside a \<^verbatim>\<open>try\<close> block: \<open>step\<close> awaits a fallible operation of the
  platform, \<open>external\<close> awaits a call that leaves the process and records it. A throw
  skips the rest of the block.
\<close>

definition step :: "thrown + 'a \<Rightarrow> ('a \<Rightarrow> 'b outcome) \<Rightarrow> 'b outcome" where
  "step r k = (case r of Inl e \<Rightarrow> (Inl e, []) | Inr v \<Rightarrow> k v)"

definition external :: "call \<Rightarrow> thrown + 'a \<Rightarrow> ('a \<Rightarrow> 'b outcome) \<Rightarrow> 'b outcome" where
  "external c r k =
     (case r of
        Inl e \<Rightarrow> (Inl e, [c])
      | Inr v \<Rightarrow> (case k v of (r', cs) \<Rightarrow> (r', c # cs)))"

definition returns :: "'a \<Rightarrow> 'a outcome" where
  "returns v = (Inr v, [])"

definition throws :: "thrown \<Rightarrow> 'a outcome" where
  "throws e = (Inl e, [])"

section \<open>The error answer shared by the handlers\<close>

text \<open>
  The \<^verbatim>\<open>catch\<close> block, the same in the three handlers:
  \<^verbatim>\<open>status = error.response?.status || 500\<close>,
  \<^verbatim>\<open>errorMessage = error.response?.data?.detail || error.message || "Unknown error"\<close>.
\<close>

definition catch_response :: "thrown \<Rightarrow> HttpResponseInit" where
  "catch_response error =
     (let status = js_or (opt_member (member (Obj error) ''response'') ''status'') (Num 500);
          errorMessage =
            js_or (js_or (opt_member (opt_member (member (Obj error) ''response'') ''data'') ''detail'')
                         (member (Obj error) ''message''))
                  (Str ''Unknown error'')
      in \<lparr>status = Some status, body = None,
          jsonBody = Some (Obj [(''success'', Bool False), (''error'', errorMessage)])\<rparr>)"

definition try_catch :: "HttpResponseInit outcome \<Rightarrow> HttpResponseInit \<times> call list" where
  "try_catch r =
     (case r of
        (Inl error, cs) \<Rightarrow> (catch_response error, cs)
      | (Inr response, cs) \<Rightarrow> (response, cs))"

section \<open>The webhook handler, form-encoded variant\<close>

definition MOLLIE_API_KEY :: "Env \<Rightarrow> string option" where
  "MOLLIE_API_KEY env = process_env env ''MOLLIE_API_KEY''"

definition recurringPaymentAmount :: "Env \<Rightarrow> string option" where
  "recurringPaymentAmount env = process_env env ''RECURRING_PAYMENT_AMOUNT''"

definition recurringPaymentWebhook :: "Env \<Rightarrow> string option" where
  "recurringPaymentWebhook env = process_env env ''RECURRING_PAYMENT_WEBHOOK''"

text \<open>
  The \<^verbatim>\<open>Date\<close> methods the handlers call, as the language defines them over the
  platform's time zone and calendar. \<^verbatim>\<open>getDate()\<close> is the day of the month of the
  local time. \<^verbatim>\<open>setDate(dt)\<close> keeps the local year, month and time of day, makes the
  day \<open>dt - 1\<close> days after the first of that month (so a \<open>dt\<close> past the end of the month
  runs on into the next), and turns the local time so made back into UTC. The clipping
  of time values beyond 8.64e15 milliseconds is left out.
\<close>

definition msPerDay :: int where
  "msPerDay = 86400000"

definition Day :: "int \<Rightarrow> int" where
  "Day t = t div msPerDay"

definition TimeWithinDay :: "int \<Rightarrow> int" where
  "TimeWithinDay t = t mod msPerDay"

definition LocalTime :: "Env \<Rightarrow> int \<Rightarrow> int" where
  "LocalTime env t = t + LocalTZA env t True"

definition UTC :: "Env \<Rightarrow> int \<Rightarrow> int" where
  "UTC env t = t - LocalTZA env t False"

definition DateFromTime :: "Env \<Rightarrow> int \<Rightarrow> int" where
  "DateFromTime env t = Day t - month_first_day env (Day t) + 1"

text \<open>\<^verbatim>\<open>MakeDay(YearFromTime(t), MonthFromTime(t), dt)\<close>\<close>

definition MakeDay :: "Env \<Rightarrow> int \<Rightarrow> int \<Rightarrow> int" where
  "MakeDay env t dt = month_first_day env (Day t) + dt - 1"

definition MakeDate :: "int \<Rightarrow> int \<Rightarrow> int" where
  "MakeDate day time = day * msPerDay + time"

definition Date_getDate :: "Env \<Rightarrow> int \<Rightarrow> int" where
  "Date_getDate env tv = DateFromTime env (LocalTime env tv)"

definition Date_setDate :: "Env \<Rightarrow> int \<Rightarrow> int \<Rightarrow> int" where
  "Date_setDate env tv dt =
     (let t = LocalTime env tv;
          newDate = MakeDate (MakeDay env t dt) (TimeWithinDay t)
      in UTC env newDate)"

text \<open>
  \<^verbatim>\<open>startDate = new Date(); startDate.setDate(startDate.getDate() + 30);\<close>
  \<^verbatim>\<open>startDateShort = startDate.toISOString().split('T')[0]\<close>
\<close>

definition startDateShort :: "Env \<Rightarrow> string" where
  "startDateShort env =
     (let startDate = Date_now env;
          startDate = Date_setDate env startDate (Date_getDate env startDate + 30)
      in takeWhile (\<lambda>c. c \<noteq> CHR ''T'') (Date_toISOString env startDate))"

definition subscription_request :: "Env \<Rightarrow> jsval \<Rightarrow> string \<Rightarrow> jsval" where
  "subscription_request env customerId description =
     Obj [(''customerId'', customerId),
          (''amount'', Obj [(''currency'', Str ''EUR''),
                            (''value'', env_val (recurringPaymentAmount env))]),
          (''times'', Num 12),
          (''interval'', Str ''1 days''),
          (''startDate'', Str (startDateShort env)),
          (''description'', Str description),
          (''webhookUrl'', env_val (recurringPaymentWebhook env))]"

definition missing_payment_id :: HttpResponseInit where
  \<open>missing_payment_id =
     \<lparr>status = Some (Num 400), body = Some (Str ''{"error":"Missing payment ID"}''),
      jsonBody = None\<rparr>\<close>

definition received_response :: HttpResponseInit where
  "received_response = \<lparr>status = Some (Num 200), body = None,
               jsonBody = Some (Obj [(''received'', Bool True)])\<rparr>"

definition success_response :: HttpResponseInit where
  "success_response = \<lparr>status = Some (Num 200), body = None,
              jsonBody = Some (Obj [(''success'', Bool True)])\<rparr>"

definition initializeRecurringPayment_try :: "Env \<Rightarrow> HttpRequest \<Rightarrow> HttpResponseInit outcome" where
  "initializeRecurringPayment_try env request =
     step (text_result request) (\<lambda>bodyText.
       case URLSearchParams_get env bodyText ''id'' of
         None \<Rightarrow> returns missing_payment_id
       | Some paymentId \<Rightarrow>
           if paymentId = [] then returns missing_payment_id
           else
             step (createMollieClient env (Obj [(''apiKey'', env_val (MOLLIE_API_KEY env))]))
               (\<lambda>mollieClient.
             external (Call_payments_get paymentId) (payments_get mollieClient paymentId)
               (\<lambda>payment.
             if payment_status payment \<noteq> ''paid'' then returns received_response
             else
               let customerId = env_val (payment_customerId payment);
                   params = subscription_request env customerId ''Recurring payment''
               in
             external (Call_customerSubscriptions_create params)
                      (customerSubscriptions_create mollieClient params)
               (\<lambda>recurringPaymentResponse.
             let status = (subscription_status recurringPaymentResponse = ''active'') in
             external (Call_updateDataverseSubscription customerId status)
                      (updateDataverseSubscription env customerId status)
               (\<lambda>_. returns success_response)))))"

definition initializeRecurringPayment :: "Env \<Rightarrow> HttpRequest \<Rightarrow> HttpResponseInit \<times> call list" where
  "initializeRecurringPayment env request = try_catch (initializeRecurringPayment_try env request)"

section \<open>The webhook handler, JSON variant\<close>

text \<open>
  \<^verbatim>\<open>const {customerId, success} = requestBody\<close> and its like: destructuring
  \<^verbatim>\<open>undefined\<close> or \<^verbatim>\<open>null\<close> is a \<^verbatim>\<open>TypeError\<close>.
\<close>

fun destructure :: "jsval \<Rightarrow> thrown + jsval" where
  "destructure Undefined = Inl (TypeError ''Cannot destructure the value as it is undefined.'')"
| "destructure Null = Inl (TypeError ''Cannot destructure the value as it is null.'')"
| "destructure v = Inr v"

definition payment_not_successful :: HttpResponseInit where
  \<open>payment_not_successful =
     \<lparr>status = Some (Num 400), body = Some (Str ''{"error":"Payment was not successful"}''),
      jsonBody = None\<rparr>\<close>

definition initializeRecurringPayment_legacy_try ::
  "Env \<Rightarrow> HttpRequest \<Rightarrow> HttpResponseInit outcome" where
  "initializeRecurringPayment_legacy_try env request =
     step (json_result request) (\<lambda>requestBody.
     step (destructure requestBody) (\<lambda>requestBody.
       let customerId = member requestBody ''customerId'';
           success = member requestBody ''success''
       in
       if \<not> truthy success then returns payment_not_successful
       else
         step (createMollieClient env (Obj [(''apiKey'', env_val (MOLLIE_API_KEY env))]))
           (\<lambda>mollieClient.
         let params = subscription_request env customerId [] in
         external (Call_customerSubscriptions_create params)
                  (customerSubscriptions_create mollieClient params)
           (\<lambda>recurringPaymentResponse.
         let status = (subscription_status recurringPaymentResponse = ''active'') in
         external (Call_updateDataverseSubscription customerId status)
                  (updateDataverseSubscription env customerId status)
           (\<lambda>_. returns success_response)))))"

definition initializeRecurringPayment_legacy ::
  "Env \<Rightarrow> HttpRequest \<Rightarrow> HttpResponseInit \<times> call list" where
  "initializeRecurringPayment_legacy env request =
     try_catch (initializeRecurringPayment_legacy_try env request)"

section \<open>Initial subscription creation\<close>

definition MOLLIE_API_URL :: string where
  "MOLLIE_API_URL = ''https://api.mollie.com/v2''"

definition WEBHOOK_URL :: "Env \<Rightarrow> string option" where
  "WEBHOOK_URL env = process_env env ''WEBHOOK_URL''"

text \<open>\<^verbatim>\<open>record[field] = value\<close> on an object literal.\<close>

fun set_prop :: "(string \<times> jsval) list \<Rightarrow> string \<Rightarrow> jsval \<Rightarrow> (string \<times> jsval) list" where
  "set_prop [] k v = [(k, v)]"
| "set_prop ((k', v') # fs) k v = (if k' = k then (k, v) # fs else (k', v') # set_prop fs k v)"

text \<open>\<^verbatim>\<open>process.env.X || "default"\<close>.\<close>

fun env_or :: "string option \<Rightarrow> string \<Rightarrow> string" where
  "env_or None d = d"
| "env_or (Some s) d = (if s = [] then d else s)"

definition startsWith :: "string \<Rightarrow> string \<Rightarrow> bool" where
  "startsWith s p = (take (length p) s = p)"

text \<open>
  \<open>writeCustomerToDataverse\<close>. The token function handed to the record store's
  client closes over the tenant, the application, the secret and the URL; the client
  calls it inside \<^verbatim>\<open>create\<close>, so its failure is a failure of that call.
\<close>

definition writeCustomerToDataverse :: "Env \<Rightarrow> jsval \<Rightarrow> jsval \<Rightarrow> jsval outcome" where
  \<open>writeCustomerToDataverse env customerId email =
     (let tenantId = process_env env ''TENANT_ID'';
          appId = process_env env ''APPLICATION_ID'';
          clientSecret = process_env env ''CLIENT_SECRET'';
          dataverseUrl = process_env env ''DATAVERSE_URL'';
          entityName = env_or (process_env env ''ENTITY_NAME'') ''contacts'';
          clientIdField = env_or (process_env env ''CLIENT_ID_FIELD'') ''mollie_customer_id'';
          emailField = env_or (process_env env ''EMAIL_FIELD'') ''emailaddress1''
      in
      if \<not> truthy (env_val tenantId) \<or> \<not> truthy (env_val appId)
         \<or> \<not> truthy (env_val clientSecret) \<or> \<not> truthy (env_val dataverseUrl)
      then throws (Error ''Missing required environment variables for Dataverse connection'')
      else
        let dataverseUrl = env_text dataverseUrl;
            dataverseUrl = (if \<not> startsWith dataverseUrl ''https://''
                            then ''https://'' @ dataverseUrl else dataverseUrl)
        in
        if \<not> URL_valid env dataverseUrl
        then throws (Error (''Invalid Dataverse URL: '' @ dataverseUrl @
               ''. Please provide a valid URL like "https://yourorg.crm.dynamics.com"''))
        else
          let acquireToken = Obj [(''tenantId'', env_val tenantId), (''appId'', env_val appId),
                                  (''clientSecret'', env_val clientSecret),
                                  (''scope'', Str (dataverseUrl @ ''/.default''))];
              config = Obj [(''serverUrl'', Str dataverseUrl),
                            (''onTokenRefresh'', acquireToken),
                            (''dataApi'', Obj [(''version'', Str ''9.2'')])];
              record = [];
              record = set_prop record clientIdField customerId;
              record = set_prop record emailField email;
              request = Obj [(''collection'', Str entityName), (''data'', Obj record)]
          in
          external (Call_dynamicsWebApi_create config request)
                   (dynamicsWebApi_create env config request)
            (\<lambda>createResult. returns createResult))\<close>

text \<open>
  \<^verbatim>\<open>try { await f } catch (e) { context.error(...) }\<close> followed by the rest of the
  block: whatever \<open>f\<close> did, the block goes on; the calls \<open>f\<close> made stay made.
\<close>

definition swallow :: "'a outcome \<Rightarrow> 'b outcome \<Rightarrow> 'b outcome" where
  "swallow r k = (case r of (_, cs) \<Rightarrow> (case k of (r', cs') \<Rightarrow> (r', cs @ cs')))"

text \<open>\<^verbatim>\<open>email.split('@')[0]\<close>, for an \<^verbatim>\<open>email\<close> that passed \<^verbatim>\<open>!email\<close>.\<close>

fun split_at_0 :: "jsval \<Rightarrow> thrown + jsval" where
  "split_at_0 (Str s) = Inr (Str (takeWhile (\<lambda>c. c \<noteq> CHR ''@'') s))"
| "split_at_0 v = Inl (TypeError ''email.split is not a function'')"

definition email_required :: HttpResponseInit where
  \<open>email_required =
     \<lparr>status = Some (Num 400), body = Some (Str ''{"error":"Email address is required"}''),
      jsonBody = None\<rparr>\<close>

definition axios_config :: "Env \<Rightarrow> jsval" where
  "axios_config env =
     Obj [(''baseURL'', Str MOLLIE_API_URL),
          (''headers'', Obj [(''Authorization'', Str (''Bearer '' @ env_text (MOLLIE_API_KEY env))),
                             (''Content-Type'', Str ''application/json'')])]"

definition payment_request :: "Env \<Rightarrow> jsval \<Rightarrow> jsval \<Rightarrow> jsval" where
  "payment_request env amount customerId =
     Obj [(''amount'', Obj [(''currency'', Str ''EUR''),
                            (''value'', js_or amount (Str ''0.01''))]),
          (''webhookUrl'', env_val (WEBHOOK_URL env)),
          (''customerId'', customerId),
          (''sequenceType'', Str ''first'')]"

definition initializeSubscription_try :: "Env \<Rightarrow> HttpRequest \<Rightarrow> HttpResponseInit outcome" where
  "initializeSubscription_try env request =
     step (json_result request) (\<lambda>requestBody.
     step (destructure requestBody) (\<lambda>requestBody.
       let email = member requestBody ''email'';
           name = member requestBody ''name'';
           amount = member requestBody ''amount''
       in
       if \<not> truthy email then returns email_required
       else
         let mollieClient = axios_config env in
         step (if truthy name then Inr name else split_at_0 email) (\<lambda>name.
         let customer = Obj [(''email'', email), (''name'', name)] in
         external (Call_axios_post ''/customers'' customer)
                  (axios_post env mollieClient ''/customers'' customer)
           (\<lambda>customerResponse.
         step (get_path customerResponse [''data'', ''id'']) (\<lambda>customerId.
         swallow (writeCustomerToDataverse env customerId email)
           (let payment = payment_request env amount customerId in
            external (Call_axios_post ''/payments'' payment)
                     (axios_post env mollieClient ''/payments'' payment)
              (\<lambda>paymentResponse.
            step (get_path paymentResponse [''data'', ''id'']) (\<lambda>paymentId.
            step (get_path paymentResponse [''data'', ''_links'', ''checkout'', ''href''])
              (\<lambda>checkoutUrl.
              returns \<lparr>status = Some (Num 200), body = None,
                       jsonBody = Some (Obj [(''success'', Bool True),
                                             (''customerId'', customerId),
                                             (''paymentId'', paymentId),
                                             (''checkoutUrl'', checkoutUrl)])\<rparr>)))))))))"

definition initializeSubscription :: "Env \<Rightarrow> HttpRequest \<Rightarrow> HttpResponseInit \<times> call list" where
  "initializeSubscription env request = try_catch (initializeSubscription_try env request)"

section \<open>The validator test endpoint\<close>

text \<open>\<^verbatim>\<open>context.log(req.body); return { body: true }\<close>\<close>

definition subscriptionValidatorTest :: "HttpRequest \<Rightarrow> HttpResponseInit \<times> call list" where
  "subscriptionValidatorTest req = (\<lparr>status = None, body = Some (Bool True), jsonBody = None\<rparr>, [])"

section \<open>Observations on the calls made\<close>

fun is_subscription_creation :: "call \<Rightarrow> bool" where
  "is_subscription_creation (Call_customerSubscriptions_create params) = True"
| "is_subscription_creation c = False"

section \<open>A small world to run the handlers in\<close>

text \<open>
  Test doubles, in the manner of a unit test: a process environment; a reader of form
  bodies of the shape \<^verbatim>\<open>id=<token>\<close> with nothing to decode; a payment provider that
  knows the paid payment \<^verbatim>\<open>tr_paid\<close> and the open payment \<^verbatim>\<open>tr_open\<close>, both of
  customer \<^verbatim>\<open>cst_1\<close>, and answers a subscription creation as told; a record store
  whose client refuses every write; a clock stopped at 1970-01-01T00:00:00Z on a platform
  whose local time is UTC, with the calendar of January 1970 (its first day is day 0) and
  the ISO text of the two instants the handlers meet.
\<close>

definition example_process_env :: "string \<Rightarrow> string option" where
  "example_process_env =
     map_of [(''MOLLIE_API_KEY'', ''test_key''),
             (''RECURRING_PAYMENT_AMOUNT'', ''9.99''),
             (''RECURRING_PAYMENT_WEBHOOK'', ''https://example.org/recurring''),
             (''WEBHOOK_URL'', ''https://example.org/first''),
             (''TENANT_ID'', ''tenant''),
             (''APPLICATION_ID'', ''app''),
             (''CLIENT_SECRET'', ''secret''),
             (''DATAVERSE_URL'', ''org.crm.dynamics.com'')]"

definition example_URLSearchParams_get :: "string \<Rightarrow> string \<Rightarrow> string option" where
  "example_URLSearchParams_get bodyText name =
     (if name = ''id'' \<and> take 3 bodyText = ''id='' then Some (drop 3 bodyText) else None)"

definition example_mollieClient :: "thrown + Subscription \<Rightarrow> MollieClient" where
  "example_mollieClient created =
     \<lparr>payments_get = (\<lambda>paymentId.
        if paymentId = ''tr_paid''
        then Inr \<lparr>payment_status = ''paid'', payment_customerId = Some ''cst_1''\<rparr>
        else if paymentId = ''tr_open''
        then Inr \<lparr>payment_status = ''open'', payment_customerId = Some ''cst_1''\<rparr>
        else Inl (Error ''Not Found'')),
      customerSubscriptions_create = (\<lambda>params. created)\<rparr>"

definition example_axios_post :: "jsval \<Rightarrow> string \<Rightarrow> jsval \<Rightarrow> thrown + jsval" where
  "example_axios_post config url data =
     (if url = ''/customers''
      then Inr (Obj [(''data'', Obj [(''id'', Str ''cst_1'')])])
      else Inr (Obj [(''data'', Obj [(''id'', Str ''tr_first''),
             (''_links'', Obj [(''checkout'',
                Obj [(''href'', Str ''https://pay.example.org/checkout'')])])])]))"

definition example_env :: "thrown + Subscription \<Rightarrow> thrown + unit \<Rightarrow> Env" where
  "example_env created written =
     \<lparr>process_env = example_process_env,
      URLSearchParams_get = example_URLSearchParams_get,
      URL_valid = (\<lambda>url. True),
      Date_now = 0,
      LocalTZA = (\<lambda>t isUTC. 0),
      month_first_day = (\<lambda>d. 0),
      Date_toISOString = (\<lambda>t. if t = 2592000000 then ''1970-01-31T00:00:00.000Z''
                                else ''1970-01-01T00:00:00.000Z''),
      createMollieClient = (\<lambda>options. Inr (example_mollieClient created)),
      axios_post = example_axios_post,
      dynamicsWebApi_create = (\<lambda>config request. Inl (Error ''Unauthorized'')),
      updateDataverseSubscription = (\<lambda>customerId flag. written)\<rparr>"

definition form_request :: "string \<Rightarrow> HttpRequest" where
  "form_request bodyText =
     \<lparr>request_method = ''POST'', headers = [], text_result = Inr bodyText,
      json_result = Inl (Error ''Unexpected token'')\<rparr>"

definition json_request :: "jsval \<Rightarrow> HttpRequest" where
  "json_request requestBody =
     \<lparr>request_method = ''POST'', headers = [], text_result = Inr [],
      json_result = Inr requestBody\<rparr>"

text \<open>The subscription request the example world's paid payment leads to.\<close>

definition example_subscription_request :: jsval where
  "example_subscription_request =
     Obj [(''customerId'', Str ''cst_1''),
          (''amount'', Obj [(''currency'', Str ''EUR''), (''value'', Str ''9.99'')]),
          (''times'', Num 12),
          (''interval'', Str ''1 days''),
          (''startDate'', Str ''1970-01-31''),
          (''description'', Str ''Recurring payment''),
          (''webhookUrl'', Str ''https://example.org/recurring'')]"

definition example_legacy_subscription_request :: jsval where
  "example_legacy_subscription_request =
     Obj [(''customerId'', Str ''cst_9''),
          (''amount'', Obj [(''currency'', Str ''EUR''), (''value'', Str ''9.99'')]),
          (''times'', Num 12),
          (''interval'', Str ''1 days''),
          (''startDate'', Str ''1970-01-31''),
          (''description'', Str []),
          (''webhookUrl'', Str ''https://example.org/recurring'')]"

text \<open>
  The same world on a platform in Central European time, invoked on 2026-03-02 at
  00:30:00 UTC. Local time is an hour ahead of UTC until the clock change of 2026-03-29
  at 01:00 UTC (the local hour from 02:00 to 03:00 is skipped and read with the old
  offset) and two hours ahead after it. March 2026 begins on day 20513. The ISO text is
  given for the three instants met: the invocation, the start date the handler computes,
  and the instant 30 days after the invocation.
\<close>

definition cet_LocalTZA :: "int \<Rightarrow> bool \<Rightarrow> int" where
  "cet_LocalTZA t isUTC =
     (if isUTC then (if t < 1774746000000 then 3600000 else 7200000)
      else (if t < 1774753200000 then 3600000 else 7200000))"

definition cet_toISOString :: "int \<Rightarrow> string" where
  "cet_toISOString t =
     (if t = 1774999800000 then ''2026-03-31T23:30:00.000Z''
      else if t = 1775003400000 then ''2026-04-01T00:30:00.000Z''
      else ''2026-03-02T00:30:00.000Z'')"

definition cet_env :: Env where
  "cet_env =
     (example_env (Inr \<lparr>subscription_status = ''active''\<rparr>) (Inr ()))
       \<lparr>Date_now := 1772411400000,
        LocalTZA := cet_LocalTZA,
        month_first_day := (\<lambda>d. 20513),
        Date_toISOString := cet_toISOString\<rparr>"

section \<open>Sequencing lemmas\<close>

lemma step_Inl [simp]: "step (Inl e) k = (Inl e, [])"
  by (simp add: step_def)

lemma step_Inr [simp]: "step (Inr v) k = k v"
  by (simp add: step_def)

lemma external_Inl [simp]: "external c (Inl e) k = (Inl e, [c])"
  by (simp add: external_def)

lemma external_Inr [simp]: "external c (Inr v) k = (fst (k v), c # snd (k v))"
  by (simp add: external_def split: prod.split)

lemma returns_simps [simp]: "fst (returns v) = Inr v" "snd (returns v) = []"
  by (simp_all add: returns_def)

lemma throws_simps [simp]: "fst (throws e) = Inl e" "snd (throws e) = []"
  by (simp_all add: throws_def)





lemma snd_external:
  "snd (external c r k) = c # (case r of Inl e \<Rightarrow> [] | Inr v \<Rightarrow> snd (k v))"
  by (cases r) simp_all

lemma fst_swallow [simp]: "fst (swallow r k) = fst k"
  by (simp add: swallow_def split: prod.split)

lemma snd_swallow [simp]: "snd (swallow r k) = snd r @ snd k"
  by (simp add: swallow_def split: prod.split)

lemma try_catch_Inl [simp]: "try_catch (Inl e, cs) = (catch_response e, cs)"
  by (simp add: try_catch_def)

lemma try_catch_Inr [simp]: "try_catch (Inr r, cs) = (r, cs)"
  by (simp add: try_catch_def)

lemma try_catch_fst_snd:
  "try_catch r = (case fst r of Inl e \<Rightarrow> catch_response e | Inr v \<Rightarrow> v, snd r)"
  by (cases r) (simp add: try_catch_def split: sum.split)

lemma destructure_Inr [simp]:
  "(destructure v = Inr w) = (w = v \<and> v \<noteq> Undefined \<and> v \<noteq> Null)"
  by (cases v) auto

lemma destructure_ok [simp]: "v \<noteq> Undefined \<Longrightarrow> v \<noteq> Null \<Longrightarrow> destructure v = Inr v"
  by (cases v) auto

lemmas handler_defs =
  initializeRecurringPayment_def initializeRecurringPayment_try_def
  initializeRecurringPayment_legacy_def initializeRecurringPayment_legacy_try_def
  initializeSubscription_def initializeSubscription_try_def
  try_catch_fst_snd

lemmas model_defs =
  subscription_request_def startDateShort_def payment_request_def axios_config_def
  MOLLIE_API_KEY_def recurringPaymentAmount_def recurringPaymentWebhook_def WEBHOOK_URL_def
  MOLLIE_API_URL_def success_response_def received_response_def catch_response_def js_or_def
  Error_def TypeError_def writeCustomerToDataverse_def startsWith_def
  Date_getDate_def Date_setDate_def DateFromTime_def MakeDay_def MakeDate_def
  LocalTime_def UTC_def Day_def TimeWithinDay_def msPerDay_def

lemmas example_defs =
  example_env_def example_mollieClient_def example_axios_post_def example_process_env_def
  example_URLSearchParams_get_def form_request_def json_request_def
  example_subscription_request_def example_legacy_subscription_request_def

lemmas cet_defs =
  cet_env_def cet_LocalTZA_def cet_toISOString_def

section \<open>Which calls a handler can make\<close>

lemma canonical_creation_calls:
  "Call_customerSubscriptions_create params \<in> set (snd (initializeRecurringPayment env request))
     \<Longrightarrow> \<exists>customerId. params = subscription_request env customerId ''Recurring payment''"
  unfolding initializeRecurringPayment_def initializeRecurringPayment_try_def try_catch_fst_snd
    step_def external_def returns_def Let_def
  by (simp split: sum.splits option.splits if_splits prod.splits) blast+

lemma legacy_creation_calls:
  "Call_customerSubscriptions_create params
     \<in> set (snd (initializeRecurringPayment_legacy env request))
     \<Longrightarrow> \<exists>customerId. params = subscription_request env customerId []"
  unfolding initializeRecurringPayment_legacy_def initializeRecurringPayment_legacy_try_def
    try_catch_fst_snd step_def external_def returns_def Let_def
  by (simp split: sum.splits option.splits if_splits prod.splits) blast+

lemma writeCustomerToDataverse_no_post:
  "writeCustomerToDataverse env customerId email = (r, cs) \<Longrightarrow> Call_axios_post url data \<notin> set cs"
  unfolding writeCustomerToDataverse_def external_def returns_def throws_def Let_def
  by (auto split: if_splits sum.splits)

lemma payment_calls:
  "json_result request = Inr requestBody \<Longrightarrow>
   Call_axios_post ''/payments'' payment \<in> set (snd (initializeSubscription env request)) \<Longrightarrow>
   \<exists>customerId. payment = payment_request env (member requestBody ''amount'') customerId"
  unfolding initializeSubscription_def initializeSubscription_try_def try_catch_fst_snd
    step_def external_def returns_def swallow_def Let_def
  by (auto split: sum.splits option.splits if_splits prod.splits
      dest: writeCustomerToDataverse_no_post)

section \<open>The claims\<close>

subsection \<open>C1: a paid payment\<close>

text \<open>
  Claim C1 says that for a webhook whose payment id resolves to a paid Payment Record the
  form-encoded handler calls subscription creation exactly once and reports
  \<^verbatim>\<open>success:true\<close> only if the created Subscription Record's status is exactly
  "active". The second half fails: in the example world the provider answers the creation
  with a subscription of status "pending", and the handler still answers HTTP 200 with
  \<^verbatim>\<open>{success:true}\<close>.
\<close>

theorem success_reported_for_pending_subscription:
  "fst (initializeRecurringPayment
          (example_env (Inr \<lparr>subscription_status = ''pending''\<rparr>) (Inr ()))
          (form_request ''id=tr_paid''))
     = \<lparr>status = Some (Num 200), body = None, jsonBody = Some (Obj [(''success'', Bool True)])\<rparr>
   \<and> customerSubscriptions_create
         (example_mollieClient (Inr \<lparr>subscription_status = ''pending''\<rparr>))
         (subscription_request
            (example_env (Inr \<lparr>subscription_status = ''pending''\<rparr>) (Inr ()))
            (Str ''cst_1'') ''Recurring payment'')
       = Inr \<lparr>subscription_status = ''pending''\<rparr>
   \<and> ''pending'' \<noteq> ''active''"
  by (simp add: handler_defs example_defs model_defs Let_def)

text \<open>
  Claim C1, as amended. For a webhook whose form body holds a payment id that resolves to a
  Payment Record with status "paid", the form-encoded handler calls subscription creation
  exactly once, and its answer carries \<^verbatim>\<open>{success:true}\<close> exactly when that call and
  the record-store write after it both return, whatever the status of the created
  Subscription Record; that status only decides the flag handed to the write.
\<close>

theorem paid_payment_creates_subscription_once:
  assumes "text_result request = Inr bodyText"
    and "URLSearchParams_get env bodyText ''id'' = Some paymentId"
    and "paymentId \<noteq> []"
    and "createMollieClient env (Obj [(''apiKey'', env_val (MOLLIE_API_KEY env))]) = Inr mollieClient"
    and "payments_get mollieClient paymentId = Inr payment"
    and "payment_status payment = ''paid''"
  shows "length (filter is_subscription_creation (snd (initializeRecurringPayment env request))) = 1
       \<and> ((jsonBody (fst (initializeRecurringPayment env request))
              = Some (Obj [(''success'', Bool True)]))
          = (case customerSubscriptions_create mollieClient
                    (subscription_request env (env_val (payment_customerId payment))
                       ''Recurring payment'') of
               Inl e \<Rightarrow> False
             | Inr created \<Rightarrow>
                (case updateDataverseSubscription env (env_val (payment_customerId payment))
                        (subscription_status created = ''active'') of
                   Inl e \<Rightarrow> False
                 | Inr u \<Rightarrow> True)))"
  using assms
  by (simp add: handler_defs success_response_def catch_response_def Let_def split: sum.split)

theorem paid_payment_creates_subscription_once_witness:
  "length (filter is_subscription_creation
     (snd (initializeRecurringPayment
             (example_env (Inr \<lparr>subscription_status = ''pending''\<rparr>) (Inr ()))
             (form_request ''id=tr_paid'')))) = 1
   \<and> jsonBody (fst (initializeRecurringPayment
                       (example_env (Inr \<lparr>subscription_status = ''pending''\<rparr>) (Inr ()))
                       (form_request ''id=tr_paid'')))
       = Some (Obj [(''success'', Bool True)])"
  using paid_payment_creates_subscription_once
    [where request = "form_request ''id=tr_paid''"
       and env = "example_env (Inr \<lparr>subscription_status = ''pending''\<rparr>) (Inr ())"
       and bodyText = "''id=tr_paid''" and paymentId = "''tr_paid''"
       and mollieClient = "example_mollieClient (Inr \<lparr>subscription_status = ''pending''\<rparr>)"
       and payment = "\<lparr>payment_status = ''paid'', payment_customerId = Some ''cst_1''\<rparr>"]
  by (simp add: example_defs)

subsection \<open>C2: the answer to a failure\<close>

text \<open>
  Claim C2. Whichever step of the form-encoded webhook handler raises (reading the body,
  building the provider's client, looking the payment up, creating the subscription,
  writing to the record store), the handler answers with the status the thrown error
  reports in \<^verbatim>\<open>response.status\<close> when there is one, and 500 otherwise, and with the
  body \<^verbatim>\<open>{success:false, error:message}\<close>, the message being the upstream response's
  detail when there is one, else the error's own message, else "Unknown error". As in the
  source's \<^verbatim>\<open>||\<close>, a field counts as there when it is truthy: not undefined, null,
  false, 0 or the empty string.
\<close>

theorem webhook_failure_response:
  assumes "text_result request = Inl error
     \<or> (text_result request = Inr bodyText
        \<and> URLSearchParams_get env bodyText ''id'' = Some paymentId \<and> paymentId \<noteq> []
        \<and> (createMollieClient env (Obj [(''apiKey'', env_val (MOLLIE_API_KEY env))]) = Inl error
           \<or> (createMollieClient env (Obj [(''apiKey'', env_val (MOLLIE_API_KEY env))])
                = Inr mollieClient
              \<and> (payments_get mollieClient paymentId = Inl error
                 \<or> (payments_get mollieClient paymentId = Inr payment
                     \<and> payment_status payment = ''paid''
                     \<and> (customerSubscriptions_create mollieClient
                           (subscription_request env (env_val (payment_customerId payment))
                              ''Recurring payment'') = Inl error
                        \<or> (customerSubscriptions_create mollieClient
                              (subscription_request env (env_val (payment_customerId payment))
                                 ''Recurring payment'') = Inr created
                            \<and> updateDataverseSubscription env
                                  (env_val (payment_customerId payment))
                                  (subscription_status created = ''active'') = Inl error)))))))"
  shows "fst (initializeRecurringPayment env request) =
     (let reported = opt_member (member (Obj error) ''response'') ''status'';
          detail = opt_member (opt_member (member (Obj error) ''response'') ''data'') ''detail'';
          message = member (Obj error) ''message''
      in \<lparr>status = Some (if truthy reported then reported else Num 500),
          body = None,
          jsonBody = Some (Obj [(''success'', Bool False),
                                (''error'', if truthy detail then detail
                                            else if truthy message then message
                                            else Str ''Unknown error'')])\<rparr>)"
  using assms
  by (auto simp add: handler_defs catch_response_def js_or_def Let_def)

theorem webhook_failure_response_witness:
  "fst (initializeRecurringPayment
          (example_env
             (Inl [(''message'', Str ''Request failed with status code 422''),
                   (''response'', Obj [(''status'', Num 422),
                      (''data'', Obj [(''detail'', Str ''The amount is invalid'')])])])
             (Inr ()))
          (form_request ''id=tr_paid''))
   = \<lparr>status = Some (Num 422), body = None,
      jsonBody = Some (Obj [(''success'', Bool False),
                            (''error'', Str ''The amount is invalid'')])\<rparr>"
  using webhook_failure_response
    [where request = "form_request ''id=tr_paid''"
       and env = "example_env
             (Inl [(''message'', Str ''Request failed with status code 422''),
                   (''response'', Obj [(''status'', Num 422),
                      (''data'', Obj [(''detail'', Str ''The amount is invalid'')])])])
             (Inr ())"
       and error = "[(''message'', Str ''Request failed with status code 422''),
                   (''response'', Obj [(''status'', Num 422),
                      (''data'', Obj [(''detail'', Str ''The amount is invalid'')])])]"
       and bodyText = "''id=tr_paid''" and paymentId = "''tr_paid''"
       and mollieClient = "example_mollieClient
             (Inl [(''message'', Str ''Request failed with status code 422''),
                   (''response'', Obj [(''status'', Num 422),
                      (''data'', Obj [(''detail'', Str ''The amount is invalid'')])])])"
       and payment = "\<lparr>payment_status = ''paid'', payment_customerId = Some ''cst_1''\<rparr>"]
  by (simp add: example_defs)

subsection \<open>C3: a payment that is not paid\<close>

text \<open>
  Claim C3. For a webhook whose form body holds a payment id that resolves to a Payment
  Record with a status other than "paid", the form-encoded handler answers HTTP 200 with
  \<^verbatim>\<open>{received:true}\<close>; the payment lookup is the only call it makes, so it neither
  creates a subscription nor writes to the record store.
\<close>

theorem unpaid_payment_is_acknowledged:
  assumes "text_result request = Inr bodyText"
    and "URLSearchParams_get env bodyText ''id'' = Some paymentId"
    and "paymentId \<noteq> []"
    and "createMollieClient env (Obj [(''apiKey'', env_val (MOLLIE_API_KEY env))]) = Inr mollieClient"
    and "payments_get mollieClient paymentId = Inr payment"
    and "payment_status payment \<noteq> ''paid''"
  shows "initializeRecurringPayment env request =
           (\<lparr>status = Some (Num 200), body = None,
             jsonBody = Some (Obj [(''received'', Bool True)])\<rparr>,
            [Call_payments_get paymentId])"
  using assms
  by (simp add: handler_defs received_response_def)

theorem unpaid_payment_is_acknowledged_witness:
  "initializeRecurringPayment
     (example_env (Inr \<lparr>subscription_status = ''active''\<rparr>) (Inr ()))
     (form_request ''id=tr_open'')
   = (\<lparr>status = Some (Num 200), body = None, jsonBody = Some (Obj [(''received'', Bool True)])\<rparr>,
      [Call_payments_get ''tr_open''])"
  by (rule unpaid_payment_is_acknowledged
        [where bodyText = "''id=tr_open''"
           and mollieClient = "example_mollieClient (Inr \<lparr>subscription_status = ''active''\<rparr>)"
           and payment = "\<lparr>payment_status = ''open'', payment_customerId = Some ''cst_1''\<rparr>"])
     (simp_all add: example_defs)

subsection \<open>C4: the record store fails during activation\<close>

text \<open>
  Claim C4 says that when the record-store write raises after the subscription was
  created, the handler answers with \<^verbatim>\<open>success:false\<close> and a status that is not 200
  and comes from the failure. The handler passes on whatever status the failure reports:
  a failure that reports 200 is answered with 200.
\<close>

theorem record_store_failure_can_report_200:
  "initializeRecurringPayment
     (example_env (Inr \<lparr>subscription_status = ''active''\<rparr>)
        (Inl [(''message'', Str ''rejected''), (''response'', Obj [(''status'', Num 200)])]))
     (form_request ''id=tr_paid'')
   = (\<lparr>status = Some (Num 200), body = None,
       jsonBody = Some (Obj [(''success'', Bool False), (''error'', Str ''rejected'')])\<rparr>,
      [Call_payments_get ''tr_paid'',
       Call_customerSubscriptions_create example_subscription_request,
       Call_updateDataverseSubscription (Str ''cst_1'') True])"
  by (simp add: handler_defs example_defs model_defs Let_def)

text \<open>
  Claim C4, as amended. When the record-store write raises after the subscription was
  created, the handler answers with \<^verbatim>\<open>success:false\<close> and with the status the
  failure reports when that is truthy, else 500; the status is other than 200 whenever
  the failure does not itself report 200.
\<close>

theorem record_store_failure_is_reported:
  assumes "text_result request = Inr bodyText"
    and "URLSearchParams_get env bodyText ''id'' = Some paymentId"
    and "paymentId \<noteq> []"
    and "createMollieClient env (Obj [(''apiKey'', env_val (MOLLIE_API_KEY env))]) = Inr mollieClient"
    and "payments_get mollieClient paymentId = Inr payment"
    and "payment_status payment = ''paid''"
    and "customerSubscriptions_create mollieClient
           (subscription_request env (env_val (payment_customerId payment)) ''Recurring payment'')
         = Inr created"
    and "updateDataverseSubscription env (env_val (payment_customerId payment))
           (subscription_status created = ''active'') = Inl error"
  shows "opt_member (case jsonBody (fst (initializeRecurringPayment env request)) of
                       None \<Rightarrow> Undefined | Some b \<Rightarrow> b) ''success'' = Bool False
       \<and> status (fst (initializeRecurringPayment env request)) =
           Some (if truthy (opt_member (member (Obj error) ''response'') ''status'')
                 then opt_member (member (Obj error) ''response'') ''status'' else Num 500)
       \<and> (opt_member (member (Obj error) ''response'') ''status'' \<noteq> Num 200
            \<longrightarrow> status (fst (initializeRecurringPayment env request)) \<noteq> Some (Num 200))"
  using assms
  by (auto simp add: handler_defs catch_response_def js_or_def Let_def)

theorem record_store_failure_is_reported_witness:
  "opt_member (case jsonBody (fst (initializeRecurringPayment
                  (example_env (Inr \<lparr>subscription_status = ''active''\<rparr>)
                     (Inl (Error ''The record store is down'')))
                  (form_request ''id=tr_paid''))) of
                 None \<Rightarrow> Undefined | Some b \<Rightarrow> b) ''success'' = Bool False
   \<and> status (fst (initializeRecurringPayment
                 (example_env (Inr \<lparr>subscription_status = ''active''\<rparr>)
                    (Inl (Error ''The record store is down'')))
                 (form_request ''id=tr_paid''))) = Some (Num 500)
   \<and> status (fst (initializeRecurringPayment
                 (example_env (Inr \<lparr>subscription_status = ''active''\<rparr>)
                    (Inl (Error ''The record store is down'')))
                 (form_request ''id=tr_paid''))) \<noteq> Some (Num 200)"
  using record_store_failure_is_reported
    [where request = "form_request ''id=tr_paid''"
       and env = "example_env (Inr \<lparr>subscription_status = ''active''\<rparr>)
                    (Inl (Error ''The record store is down''))"
       and error = "Error ''The record store is down''"
       and bodyText = "''id=tr_paid''" and paymentId = "''tr_paid''"
       and mollieClient = "example_mollieClient (Inr \<lparr>subscription_status = ''active''\<rparr>)"
       and payment = "\<lparr>payment_status = ''paid'', payment_customerId = Some ''cst_1''\<rparr>"
       and created = "\<lparr>subscription_status = ''active''\<rparr>"]
  by (simp add: example_defs Error_def)

subsection \<open>C5: the record store fails during initial creation\<close>




subsection \<open>C6: the activation flag\<close>

text \<open>
  Claim C6. For every Subscription Record a webhook handler creates, in the form-encoded
  variant and in the JSON variant alike, the activation flag handed to the record-store
  write is true if and only if the record's status is the string "active"; any other
  status, "pending" among them, gives false.
\<close>

theorem activation_flag_iff_active:
  "(text_result request = Inr bodyText
      \<and> URLSearchParams_get env bodyText ''id'' = Some paymentId \<and> paymentId \<noteq> []
      \<and> createMollieClient env (Obj [(''apiKey'', env_val (MOLLIE_API_KEY env))]) = Inr mollieClient
      \<and> payments_get mollieClient paymentId = Inr payment
      \<and> payment_status payment = ''paid''
      \<and> customerSubscriptions_create mollieClient
           (subscription_request env (env_val (payment_customerId payment)) ''Recurring payment'')
         = Inr created
    \<longrightarrow> snd (initializeRecurringPayment env request) =
          [Call_payments_get paymentId,
           Call_customerSubscriptions_create
             (subscription_request env (env_val (payment_customerId payment)) ''Recurring payment''),
           Call_updateDataverseSubscription (env_val (payment_customerId payment))
             (subscription_status created = ''active'')])
 \<and> (json_result request' = Inr requestBody
      \<and> truthy (member requestBody ''success'')
      \<and> createMollieClient env' (Obj [(''apiKey'', env_val (MOLLIE_API_KEY env'))])
          = Inr mollieClient'
      \<and> customerSubscriptions_create mollieClient'
           (subscription_request env' (member requestBody ''customerId'') []) = Inr created'
    \<longrightarrow> snd (initializeRecurringPayment_legacy env' request') =
          [Call_customerSubscriptions_create
             (subscription_request env' (member requestBody ''customerId'') []),
           Call_updateDataverseSubscription (member requestBody ''customerId'')
             (subscription_status created' = ''active'')])"
  by (cases requestBody) (auto simp add: handler_defs Let_def snd_external split: sum.split)

theorem activation_flag_iff_active_witness:
  "snd (initializeRecurringPayment
          (example_env (Inr \<lparr>subscription_status = ''pending''\<rparr>) (Inr ()))
          (form_request ''id=tr_paid''))
     = [Call_payments_get ''tr_paid'',
        Call_customerSubscriptions_create example_subscription_request,
        Call_updateDataverseSubscription (Str ''cst_1'') False]
   \<and> snd (initializeRecurringPayment_legacy
          (example_env (Inr \<lparr>subscription_status = ''active''\<rparr>) (Inr ()))
          (json_request (Obj [(''customerId'', Str ''cst_9''), (''success'', Bool True)])))
     = [Call_customerSubscriptions_create
          (Obj [(''customerId'', Str ''cst_9''),
                (''amount'', Obj [(''currency'', Str ''EUR''), (''value'', Str ''9.99'')]),
                (''times'', Num 12),
                (''interval'', Str ''1 days''),
                (''startDate'', Str ''1970-01-31''),
                (''description'', Str []),
                (''webhookUrl'', Str ''https://example.org/recurring'')]),
        Call_updateDataverseSubscription (Str ''cst_9'') True]"
  using activation_flag_iff_active
    [where request = "form_request ''id=tr_paid''"
       and env = "example_env (Inr \<lparr>subscription_status = ''pending''\<rparr>) (Inr ())"
       and bodyText = "''id=tr_paid''" and paymentId = "''tr_paid''"
       and mollieClient = "example_mollieClient (Inr \<lparr>subscription_status = ''pending''\<rparr>)"
       and payment = "\<lparr>payment_status = ''paid'', payment_customerId = Some ''cst_1''\<rparr>"
       and created = "\<lparr>subscription_status = ''pending''\<rparr>"
       and request' = "json_request (Obj [(''customerId'', Str ''cst_9''), (''success'', Bool True)])"
       and env' = "example_env (Inr \<lparr>subscription_status = ''active''\<rparr>) (Inr ())"
       and requestBody = "Obj [(''customerId'', Str ''cst_9''), (''success'', Bool True)]"
       and mollieClient' = "example_mollieClient (Inr \<lparr>subscription_status = ''active''\<rparr>)"
       and created' = "\<lparr>subscription_status = ''active''\<rparr>"]
  by (simp add: example_defs model_defs Let_def)

subsection \<open>C7: the JSON variant and an unsuccessful payment\<close>

text \<open>
  Claim C7. For a JSON webhook payload whose \<^verbatim>\<open>success\<close> field is false, the JSON
  variant of the webhook handler answers HTTP 400 with a fixed error message and makes no
  call to the payment provider or to the record store.
\<close>

theorem legacy_unsuccessful_payment_rejected:
  assumes "json_result request = Inr (Obj props)"
    and "map_of props ''success'' = Some (Bool False)"
  shows \<open>initializeRecurringPayment_legacy env request =
           (\<lparr>status = Some (Num 400),
             body = Some (Str ''{"error":"Payment was not successful"}''),
             jsonBody = None\<rparr>, [])\<close>
  using assms
  by (simp add: handler_defs payment_not_successful_def returns_def)

theorem legacy_unsuccessful_payment_rejected_witness:
  \<open>initializeRecurringPayment_legacy
     (example_env (Inr \<lparr>subscription_status = ''active''\<rparr>) (Inr ()))
     (json_request (Obj [(''customerId'', Str ''cst_9''), (''success'', Bool False)]))
   = (\<lparr>status = Some (Num 400),
       body = Some (Str ''{"error":"Payment was not successful"}''),
       jsonBody = None\<rparr>, [])\<close>
  by (rule legacy_unsuccessful_payment_rejected
        [where props = "[(''customerId'', Str ''cst_9''), (''success'', Bool False)]"])
     (simp_all add: example_defs)

subsection \<open>C8: the parameters of a subscription creation\<close>

text \<open>
  Moving the day of the month on by \<open>n\<close> moves the local time on by \<open>n\<close> days, whatever
  the calendar; what that is in UTC rests on the offset of local time at the new date.
\<close>

lemma setDate_getDate_plus:
  "Date_setDate env t (Date_getDate env t + n) = UTC env (LocalTime env t + n * msPerDay)"
proof -
  have "(Day (LocalTime env t) + n) * msPerDay + TimeWithinDay (LocalTime env t)
          = LocalTime env t + n * msPerDay"
    by (simp add: Day_def TimeWithinDay_def algebra_simps)
  then show ?thesis
    by (simp add: Date_setDate_def Date_getDate_def DateFromTime_def MakeDay_def MakeDate_def
        Let_def)
qed

text \<open>
  Claim C8 says that the start date of the subscription is computed as exactly 30 days
  after the invocation time. The handler moves the local day of the month on by 30 and
  sends the UTC date of the result. On a platform in Central European time, invoked on
  2026-03-02 at 00:30 UTC (01:30 local time), the result is 01:30 local time on
  2026-04-01, after the clock change of 29 March: that is 2026-03-31 at 23:30 UTC, 719
  hours after the invocation, and the handler sends "2026-03-31", where the instant 30
  days after the invocation falls on 2026-04-01.
\<close>

theorem start_date_across_clock_change:
  "snd (initializeRecurringPayment cet_env (form_request ''id=tr_paid''))
     = [Call_payments_get ''tr_paid'',
        Call_customerSubscriptions_create
          (Obj [(''customerId'', Str ''cst_1''),
                (''amount'', Obj [(''currency'', Str ''EUR''), (''value'', Str ''9.99'')]),
                (''times'', Num 12),
                (''interval'', Str ''1 days''),
                (''startDate'', Str ''2026-03-31''),
                (''description'', Str ''Recurring payment''),
                (''webhookUrl'', Str ''https://example.org/recurring'')]),
        Call_updateDataverseSubscription (Str ''cst_1'') True]
   \<and> Date_toISOString cet_env (Date_now cet_env) = ''2026-03-02T00:30:00.000Z''
   \<and> Date_toISOString cet_env (Date_now cet_env + 30 * msPerDay) = ''2026-04-01T00:30:00.000Z''
   \<and> Date_setDate cet_env (Date_now cet_env) (Date_getDate cet_env (Date_now cet_env) + 30)
         - Date_now cet_env = 719 * 3600000"
  by (simp add: handler_defs example_defs model_defs cet_defs Let_def)

text \<open>
  Claim C8, as amended. Whenever a webhook handler reaches the subscription creation, it
  asks for currency "EUR", the amount of the configuration
  (\<^verbatim>\<open>RECURRING_PAYMENT_AMOUNT\<close>), 12 occurrences, the interval "1 days", the webhook URL
  of the configuration (\<^verbatim>\<open>RECURRING_PAYMENT_WEBHOOK\<close>), and a start date that is the UTC
  date of the instant at which local time stands 30 days past the local time of the
  invocation. That is the UTC date of the instant exactly 30 days after the invocation
  whenever local time has the same offset from UTC at both instants, as it always has on
  a platform whose local time is UTC.
\<close>

theorem subscription_creation_parameters:
  assumes "Call_customerSubscriptions_create params
             \<in> set (snd (initializeRecurringPayment env request))
         \<or> Call_customerSubscriptions_create params
             \<in> set (snd (initializeRecurringPayment_legacy env request))"
  shows "member params ''amount'' =
           Obj [(''currency'', Str ''EUR''),
                (''value'', env_val (process_env env ''RECURRING_PAYMENT_AMOUNT''))]
       \<and> member params ''times'' = Num 12
       \<and> member params ''interval'' = Str ''1 days''
       \<and> member params ''webhookUrl'' = env_val (process_env env ''RECURRING_PAYMENT_WEBHOOK'')
       \<and> member params ''startDate'' =
           Str (takeWhile (\<lambda>c. c \<noteq> CHR ''T'')
                  (Date_toISOString env
                     (UTC env (LocalTime env (Date_now env) + 30 * msPerDay))))
       \<and> (LocalTZA env (LocalTime env (Date_now env) + 30 * msPerDay) False
             = LocalTZA env (Date_now env) True
          \<longrightarrow> member params ''startDate'' =
                Str (takeWhile (\<lambda>c. c \<noteq> CHR ''T'')
                       (Date_toISOString env (Date_now env + 30 * msPerDay))))"
proof -
  have "\<exists>customerId description. params = subscription_request env customerId description"
    using assms canonical_creation_calls legacy_creation_calls by blast
  then obtain customerId description
    where params: "params = subscription_request env customerId description"
    by blast
  have start: "member params ''startDate'' =
           Str (takeWhile (\<lambda>c. c \<noteq> CHR ''T'')
                  (Date_toISOString env
                     (UTC env (LocalTime env (Date_now env) + 30 * msPerDay))))"
    using setDate_getDate_plus [of env "Date_now env" 30]
    by (simp add: params subscription_request_def startDateShort_def Let_def)
  have same: "UTC env (LocalTime env (Date_now env) + 30 * msPerDay)
                = Date_now env + 30 * msPerDay"
    if "LocalTZA env (LocalTime env (Date_now env) + 30 * msPerDay) False
          = LocalTZA env (Date_now env) True"
    using that by (simp add: UTC_def LocalTime_def)
  have rest: "member params ''amount'' =
           Obj [(''currency'', Str ''EUR''),
                (''value'', env_val (process_env env ''RECURRING_PAYMENT_AMOUNT''))]
       \<and> member params ''times'' = Num 12
       \<and> member params ''interval'' = Str ''1 days''
       \<and> member params ''webhookUrl'' = env_val (process_env env ''RECURRING_PAYMENT_WEBHOOK'')"
    by (simp add: params subscription_request_def recurringPaymentAmount_def
        recurringPaymentWebhook_def)
  from rest start same show ?thesis by simp
qed

theorem subscription_creation_parameters_witness:
  "Call_customerSubscriptions_create example_subscription_request
     \<in> set (snd (initializeRecurringPayment
                   (example_env (Inr \<lparr>subscription_status = ''active''\<rparr>) (Inr ()))
                   (form_request ''id=tr_paid'')))
   \<and> member example_subscription_request ''amount''
       = Obj [(''currency'', Str ''EUR''), (''value'', Str ''9.99'')]
   \<and> member example_subscription_request ''times'' = Num 12
   \<and> member example_subscription_request ''interval'' = Str ''1 days''
   \<and> member example_subscription_request ''webhookUrl'' = Str ''https://example.org/recurring''
   \<and> member example_subscription_request ''startDate'' = Str ''1970-01-31''
   \<and> LocalTZA (example_env (Inr \<lparr>subscription_status = ''active''\<rparr>) (Inr ()))
         (LocalTime (example_env (Inr \<lparr>subscription_status = ''active''\<rparr>) (Inr ()))
            (Date_now (example_env (Inr \<lparr>subscription_status = ''active''\<rparr>) (Inr ())))
          + 30 * msPerDay) False
       = LocalTZA (example_env (Inr \<lparr>subscription_status = ''active''\<rparr>) (Inr ()))
           (Date_now (example_env (Inr \<lparr>subscription_status = ''active''\<rparr>) (Inr ()))) True
   \<and> Date_toISOString (example_env (Inr \<lparr>subscription_status = ''active''\<rparr>) (Inr ()))
         (Date_now (example_env (Inr \<lparr>subscription_status = ''active''\<rparr>) (Inr ()))
          + 30 * msPerDay)
       = ''1970-01-31T00:00:00.000Z''
   \<and> Call_customerSubscriptions_create example_legacy_subscription_request
     \<in> set (snd (initializeRecurringPayment_legacy
                   (example_env (Inr \<lparr>subscription_status = ''active''\<rparr>) (Inr ()))
                   (json_request (Obj [(''customerId'', Str ''cst_9''), (''success'', Bool True)]))))
   \<and> member example_legacy_subscription_request ''amount''
       = Obj [(''currency'', Str ''EUR''), (''value'', Str ''9.99'')]
   \<and> member example_legacy_subscription_request ''times'' = Num 12
   \<and> member example_legacy_subscription_request ''interval'' = Str ''1 days''
   \<and> member example_legacy_subscription_request ''webhookUrl''
       = Str ''https://example.org/recurring''
   \<and> member example_legacy_subscription_request ''startDate'' = Str ''1970-01-31''"
proof -
  let ?env = "example_env (Inr \<lparr>subscription_status = ''active''\<rparr>) (Inr ())"
  have reached: "Call_customerSubscriptions_create example_subscription_request
     \<in> set (snd (initializeRecurringPayment ?env (form_request ''id=tr_paid'')))"
    by (simp add: handler_defs example_defs model_defs Let_def)
  have reached_legacy: "Call_customerSubscriptions_create example_legacy_subscription_request
     \<in> set (snd (initializeRecurringPayment_legacy ?env
                   (json_request (Obj [(''customerId'', Str ''cst_9''), (''success'', Bool True)]))))"
    by (simp add: handler_defs example_defs model_defs Let_def)
  have zone: "LocalTZA ?env (LocalTime ?env (Date_now ?env) + 30 * msPerDay) False
                = LocalTZA ?env (Date_now ?env) True"
    by (simp add: example_env_def)
  have printed: "Date_toISOString ?env (Date_now ?env + 30 * msPerDay) = ''1970-01-31T00:00:00.000Z''"
    by (simp add: example_env_def msPerDay_def)
  have canonical: "member example_subscription_request ''amount''
       = Obj [(''currency'', Str ''EUR''), (''value'', Str ''9.99'')]
   \<and> member example_subscription_request ''times'' = Num 12
   \<and> member example_subscription_request ''interval'' = Str ''1 days''
   \<and> member example_subscription_request ''webhookUrl'' = Str ''https://example.org/recurring''
   \<and> member example_subscription_request ''startDate'' = Str ''1970-01-31''"
    using subscription_creation_parameters
        [where params = example_subscription_request and env = ?env
           and request = "form_request ''id=tr_paid''", OF disjI1, OF reached]
    by (simp add: example_env_def example_process_env_def UTC_def LocalTime_def msPerDay_def)
  have legacy: "member example_legacy_subscription_request ''amount''
       = Obj [(''currency'', Str ''EUR''), (''value'', Str ''9.99'')]
   \<and> member example_legacy_subscription_request ''times'' = Num 12
   \<and> member example_legacy_subscription_request ''interval'' = Str ''1 days''
   \<and> member example_legacy_subscription_request ''webhookUrl''
       = Str ''https://example.org/recurring''
   \<and> member example_legacy_subscription_request ''startDate'' = Str ''1970-01-31''"
    using subscription_creation_parameters
        [where params = example_legacy_subscription_request and env = ?env
           and request = "json_request (Obj [(''customerId'', Str ''cst_9''), (''success'', Bool True)])",
         OF disjI2, OF reached_legacy]
    by (simp add: example_env_def example_process_env_def UTC_def LocalTime_def msPerDay_def)
  show ?thesis
    using reached reached_legacy zone printed canonical legacy by simp
qed

subsection \<open>C9: the default amount of the first payment\<close>

text \<open>
  Claim C9. In an initial-subscription request whose \<^verbatim>\<open>amount\<close> is absent or otherwise
  falsy, every first payment the handler creates has the amount "0.01" EUR; the value is
  the handler's own and the same under every configuration.
\<close>

theorem default_first_payment_amount:
  assumes "json_result request = Inr requestBody"
    and "\<not> truthy (member requestBody ''amount'')"
    and "Call_axios_post ''/payments'' payment \<in> set (snd (initializeSubscription env request))"
  shows "member payment ''amount'' = Obj [(''currency'', Str ''EUR''), (''value'', Str ''0.01'')]"
  using payment_calls [OF assms(1) assms(3)] assms(2)
  by (auto simp add: payment_request_def js_or_def)

theorem default_first_payment_amount_witness:
  "Call_axios_post ''/payments''
     (Obj [(''amount'', Obj [(''currency'', Str ''EUR''), (''value'', Str ''0.01'')]),
           (''webhookUrl'', Str ''https://example.org/first''),
           (''customerId'', Str ''cst_1''),
           (''sequenceType'', Str ''first'')])
     \<in> set (snd (initializeSubscription
                   (example_env (Inr \<lparr>subscription_status = ''active''\<rparr>) (Inr ()))
                   (json_request (Obj [(''email'', Str ''ann@example.org''), (''amount'', Str [])]))))
   \<and> member (Obj [(''amount'', Obj [(''currency'', Str ''EUR''), (''value'', Str ''0.01'')]),
                 (''webhookUrl'', Str ''https://example.org/first''),
                 (''customerId'', Str ''cst_1''),
                 (''sequenceType'', Str ''first'')]) ''amount''
       = Obj [(''currency'', Str ''EUR''), (''value'', Str ''0.01'')]"
proof -
  have created: "Call_axios_post ''/payments''
     (Obj [(''amount'', Obj [(''currency'', Str ''EUR''), (''value'', Str ''0.01'')]),
           (''webhookUrl'', Str ''https://example.org/first''),
           (''customerId'', Str ''cst_1''),
           (''sequenceType'', Str ''first'')])
     \<in> set (snd (initializeSubscription
                   (example_env (Inr \<lparr>subscription_status = ''active''\<rparr>) (Inr ()))
                   (json_request (Obj [(''email'', Str ''ann@example.org''), (''amount'', Str [])]))))"
    by (simp add: handler_defs example_defs model_defs Let_def)
  have body: "json_result (json_request (Obj [(''email'', Str ''ann@example.org''), (''amount'', Str [])]))
      = Inr (Obj [(''email'', Str ''ann@example.org''), (''amount'', Str [])])"
    by (simp add: json_request_def)
  have falsy: "\<not> truthy (member (Obj [(''email'', Str ''ann@example.org''), (''amount'', Str [])]) ''amount'')"
    by simp
  show ?thesis
    using created default_first_payment_amount [OF body falsy created]
    by simp
qed

subsection \<open>C10: the validator test endpoint\<close>

text \<open>
  Claim C10. Whatever the request (method, headers, body), \<open>subscriptionValidatorTest\<close>
  answers with the body \<^verbatim>\<open>true\<close> and nothing else, and makes no call: its output does
  not depend on its input.
\<close>

theorem validator_test_is_constant:
  "subscriptionValidatorTest req
     = (\<lparr>status = None, body = Some (Bool True), jsonBody = None\<rparr>, [])
   \<and> subscriptionValidatorTest req = subscriptionValidatorTest req'"
  by (simp add: subscriptionValidatorTest_def)

end
